theory Spec2Isabelle
  imports Complex_Main "HOL-Library.Word"
begin

section \<open>The PDF editor component (src/components/PdfEditor.vue)\<close>

text \<open>
  The component keeps its session in Vue refs and changes them from event handlers.
  Each handler is embedded as a function from the session (and the handler's argument)
  to the new session. The two libraries the component calls, pdf-lib and pdf.js, are
  collaborators: what they return for given bytes is a parameter of the model.

  JavaScript numbers that hold coordinates and sizes are embedded as \<^typ>\<open>real\<close>:
  the arithmetic of the source is kept expression by expression, its rounding is not
  modelled. Page numbers and indices, which the source only counts with, are
  \<^typ>\<open>int\<close> and \<^typ>\<open>nat\<close>. A JavaScript string is a \<^typ>\<open>string\<close>
  whose characters are the code units below 256.
\<close>

subsection \<open>Strings\<close>

text \<open>The decimal digits a template literal prints for an integer.\<close>

definition digit_char :: "nat \<Rightarrow> char" where
  "digit_char d = ''0123456789'' ! (d mod 10)"

fun string_of_nat :: "nat \<Rightarrow> string" where
  "string_of_nat n =
     (if n < 10 then [digit_char n]
      else string_of_nat (n div 10) @ [digit_char (n mod 10)])"

definition string_of_int :: "int \<Rightarrow> string" where
  "string_of_int i =
     (if i < 0 then CHR ''-'' # string_of_nat (nat (- i)) else string_of_nat (nat i))"


text \<open>
  \<open>String.prototype.trim\<close> removes white space and line terminators from both ends.
  Among the code units below 256 these are tab, line feed, vertical tab, form feed,
  carriage return, space and the no-break space.
\<close>

definition is_space :: "char \<Rightarrow> bool" where
  "is_space ch = ((of_char ch :: nat) \<in> {9, 10, 11, 12, 13, 32, 160})"

definition js_trim :: "string \<Rightarrow> string" where
  "js_trim s = rev (dropWhile is_space (rev (dropWhile is_space s)))"

text \<open>\<open>s.replace(pat, rep)\<close> with a string pattern replaces the first occurrence.\<close>

fun js_replace :: "string \<Rightarrow> string \<Rightarrow> string \<Rightarrow> string" where
  "js_replace pat rep [] = (if pat = [] then rep else [])"
| "js_replace pat rep (ch # s) =
     (if take (length pat) (ch # s) = pat then rep @ drop (length pat) (ch # s)
      else ch # js_replace pat rep s)"

subsection \<open>Objects used as dictionaries\<close>

text \<open>
  \<open>editedTextItems\<close> is a plain object keyed by the run id. \<open>Object.entries\<close> lists
  the keys in insertion order, so the object is a list of pairs: an assignment keeps the
  place of a key that is present and appends a new one, \<open>delete\<close> removes the key.
\<close>

fun obj_set :: "'k \<Rightarrow> 'v \<Rightarrow> ('k \<times> 'v) list \<Rightarrow> ('k \<times> 'v) list" where
  "obj_set k v [] = [(k, v)]"
| "obj_set k v (p # ps) = (if fst p = k then (k, v) # ps else p # obj_set k v ps)"

definition obj_delete :: "'k \<Rightarrow> ('k \<times> 'v) list \<Rightarrow> ('k \<times> 'v) list" where
  "obj_delete k ps = filter (\<lambda>p. fst p \<noteq> k) ps"

definition obj_get :: "('k \<times> 'v) list \<Rightarrow> 'k \<Rightarrow> 'v option" where
  "obj_get ps k = map_of ps k"

text \<open>An object has each key once.\<close>

definition obj_ok :: "('k \<times> 'v) list \<Rightarrow> bool" where
  "obj_ok ps = distinct (map fst ps)"

subsection \<open>Data\<close>

text \<open>
  A glyph or viewport transform is the array \<open>[a, b, c, d, e, f]\<close>; \<open>t0\<close> to \<open>t5\<close>
  are its elements 0 to 5.
\<close>

record transform6 =
  t0 :: real
  t1 :: real
  t2 :: real
  t3 :: real
  t4 :: real
  t5 :: real

text \<open>\<open>pdfjsLib.Util.transform(m1, m2)\<close>: the product of two affine transforms.\<close>

definition Util_transform :: "transform6 \<Rightarrow> transform6 \<Rightarrow> transform6" where
  "Util_transform m1 m2 =
     \<lparr> t0 = t0 m1 * t0 m2 + t2 m1 * t1 m2,
       t1 = t1 m1 * t0 m2 + t3 m1 * t1 m2,
       t2 = t0 m1 * t2 m2 + t2 m1 * t3 m2,
       t3 = t1 m1 * t2 m2 + t3 m1 * t3 m2,
       t4 = t0 m1 * t4 m2 + t2 m1 * t5 m2 + t4 m1,
       t5 = t1 m1 * t4 m2 + t3 m1 * t5 m2 + t5 m1 \<rparr>"

text \<open>An item of \<open>page.getTextContent().items\<close>.\<close>

record text_content_item =
  tc_str :: string
  tc_transform :: transform6
  tc_width :: real
  tc_height :: real
  tc_fontName :: string

text \<open>The viewport of \<open>page.getViewport({ scale })\<close>.\<close>

record viewport =
  vp_transform :: transform6
  vp_scale :: real
  vp_width :: real
  vp_height :: real

text \<open>An element of \<open>existingTextItems\<close>.\<close>

record text_item =
  item_id :: string
  item_index :: nat
  originalText :: string
  item_text :: string
  item_x :: real
  item_y :: real
  item_width :: real
  item_height :: real
  fontSize :: real
  item_page :: int
  isEdited :: bool
  fontName :: string
  pdfX :: real
  pdfY :: real
  pdfFontSize :: real
  pdfWidth :: real
  pdfHeight :: real
  isEditing :: bool

text \<open>A value of \<open>editedTextItems\<close>: the pending edit of one run.\<close>

record edit =
  edit_text :: string
  edit_originalText :: string
  edit_pdfX :: real
  edit_pdfY :: real
  edit_pdfFontSize :: real
  edit_pdfWidth :: real
  edit_pdfHeight :: real
  edit_fontName :: string
  edit_page :: int

text \<open>An element of \<open>textOverlays\<close>.\<close>

record overlay =
  ov_id :: int
  ov_x :: real
  ov_y :: real
  ov_text :: string
  ov_fontSize :: real
  ov_color :: string
  ov_backgroundColor :: string
  ov_bgEnabled :: bool
  ov_bgWidth :: real
  ov_bgHeight :: real
  ov_page :: int
  ov_isEditing :: bool

type_synonym bytes = "8 word list"

text \<open>
  What pdf-lib knows of a parsed document here: the size (width, height) of each page.
\<close>

type_synonym pdf_lib_doc = "(real \<times> real) list"

text \<open>A page of the pdf.js document: its viewport at a scale and its text content.\<close>

record pdfjs_page =
  getViewport :: "real \<Rightarrow> viewport"
  getTextContent :: "text_content_item list"

text \<open>
  The collaborators. \<open>PDFDocument_load\<close> and \<open>getDocument\<close> are \<open>None\<close> where the
  library rejects the bytes; \<open>heightAtSize size descender\<close> is the height of the
  embedded Helvetica font; \<open>canEncode\<close> tells whether \<open>drawText\<close> accepts a text in that
  font (it throws on a character the font cannot encode); \<open>validColour h\<close> tells whether
  the three numbers \<open>parseInt(h.substring(0, 2), 16) / 255\<close>,
  \<open>parseInt(h.substring(2, 4), 16) / 255\<close> and \<open>parseInt(h.substring(4, 6), 16) / 255\<close>
  are accepted by \<open>rgb\<close> (it throws on \<open>NaN\<close> and on a number outside 0 to 1).
\<close>

record collaborators =
  PDFDocument_load :: "bytes \<Rightarrow> pdf_lib_doc option"
  getDocument :: "bytes \<Rightarrow> pdfjs_page list option"
  heightAtSize :: "real \<Rightarrow> bool \<Rightarrow> real"
  canEncode :: "string \<Rightarrow> bool"
  validColour :: "string \<Rightarrow> bool"

text \<open>The refs of the component that the handlers below read or write.\<close>

record session =
  pdfDoc :: "pdf_lib_doc option"
  pdfBytes :: "bytes option"
  currentPage :: int
  totalPages :: int
  scale :: real
  textOverlays :: "overlay list"
  isLoading :: bool
  fileName :: string
  existingTextItems :: "text_item list"
  editedTextItems :: "(string \<times> edit) list"
  selectedTextItem :: "string option"

text \<open>The initial values of the refs.\<close>

definition initial_session :: session where
  "initial_session =
     \<lparr> pdfDoc = None, pdfBytes = None, currentPage = 1, totalPages = 0, scale = 3 / 2,
       textOverlays = [], isLoading = False, fileName = [], existingTextItems = [],
       editedTextItems = [], selectedTextItem = None \<rparr>"

datatype error = LoadError | PageIndexError | ColourError | EncodingError

subsection \<open>Extraction of the text runs of a page\<close>

text \<open>\<open>!item.str || item.str.trim() === ''\<close>: the run is skipped.\<close>

definition skipped :: "text_content_item \<Rightarrow> bool" where
  "skipped item = (tc_str item = [] \<or> js_trim (tc_str item) = [])"

text \<open>The key \<open>`${pageKey}-${i}`\<close>.\<close>

definition itemKey :: "int \<Rightarrow> nat \<Rightarrow> string" where
  "itemKey pageKey i = string_of_int pageKey @ ''-'' @ string_of_nat i"

text \<open>
  The point \<open>(tx[4], tx[5])\<close> of \<open>tx = Util.transform(viewport.transform, item.transform)\<close>:
  the run's origin in canvas coordinates.
\<close>

definition toViewport :: "viewport \<Rightarrow> transform6 \<Rightarrow> real \<times> real" where
  "toViewport vp m =
     (let tx = Util_transform (vp_transform vp) m in (t4 tx, t5 tx))"

text \<open>The object pushed for the run at index \<open>i\<close>, one pass of the loop's body.\<close>

definition make_item ::
  "int \<Rightarrow> (string \<times> edit) list \<Rightarrow> viewport \<Rightarrow> nat \<Rightarrow> text_content_item \<Rightarrow> text_item" where
  "make_item page ledger vp i item =
     (let tx = Util_transform (vp_transform vp) (tc_transform item);
          x = fst (toViewport vp (tc_transform item));
          y = snd (toViewport vp (tc_transform item));
          fs = sqrt (t2 tx * t2 tx + t3 tx * t3 tx);
          w = tc_width item * vp_scale vp;
          h = tc_height item * vp_scale vp;
          key = itemKey page i;
          edited = obj_get ledger key
      in \<lparr> item_id = key,
           item_index = i,
           originalText = tc_str item,
           item_text = (case edited of Some e \<Rightarrow> edit_text e | None \<Rightarrow> tc_str item),
           item_x = x,
           item_y = y - h,
           item_width = w,
           item_height = max h fs,
           fontSize = fs,
           item_page = page,
           isEdited = (edited \<noteq> None),
           fontName = (if tc_fontName item = [] then ''Helvetica'' else tc_fontName item),
           pdfX = t4 (tc_transform item),
           pdfY = t5 (tc_transform item),
           pdfFontSize =
             sqrt (t2 (tc_transform item) * t2 (tc_transform item)
                   + t3 (tc_transform item) * t3 (tc_transform item)),
           pdfWidth = tc_width item,
           pdfHeight = tc_height item,
           isEditing = False \<rparr>)"

text \<open>
  The loop \<open>for (let i = 0; i < textContent.items.length; i++)\<close>, from index \<open>i\<close> on.
\<close>

fun extract_from ::
  "int \<Rightarrow> (string \<times> edit) list \<Rightarrow> viewport \<Rightarrow> nat \<Rightarrow> text_content_item list \<Rightarrow> text_item list" where
  "extract_from page ledger vp i [] = []"
| "extract_from page ledger vp i (item # rest) =
     (if skipped item then extract_from page ledger vp (Suc i) rest
      else make_item page ledger vp i item # extract_from page ledger vp (Suc i) rest)"

definition extractTextItems :: "pdfjs_page \<Rightarrow> viewport \<Rightarrow> session \<Rightarrow> session" where
  "extractTextItems page vp s =
     s\<lparr> existingTextItems :=
          extract_from (currentPage s) (editedTextItems s) vp 0 (getTextContent page) \<rparr>"

subsection \<open>Rendering a page\<close>

text \<open>
  \<open>renderPage\<close> returns at once when no bytes are held. Otherwise pdf.js parses the bytes
  (it rejects malformed ones), \<open>getPage\<close> rejects a page number outside the document,
  and the text runs of the page are extracted at the current scale. Drawing on the canvas
  changes no ref and is left out.
\<close>

definition renderPage :: "collaborators \<Rightarrow> session \<Rightarrow> error + session" where
  "renderPage c s =
     (case pdfBytes s of
        None \<Rightarrow> Inr s
      | Some bs \<Rightarrow>
          (case getDocument c bs of
             None \<Rightarrow> Inl LoadError
           | Some pages \<Rightarrow>
               if 1 \<le> currentPage s \<and> currentPage s \<le> int (length pages) then
                 (let page = pages ! nat (currentPage s - 1);
                      vp = getViewport page (scale s)
                  in Inr (extractTextItems page vp s))
               else Inl PageIndexError))"

text \<open>
  A handler that calls \<open>renderPage()\<close> without awaiting it: a rejection is not caught
  and leaves the refs as they were.
\<close>

definition renderPage_unawaited :: "collaborators \<Rightarrow> session \<Rightarrow> session" where
  "renderPage_unawaited c s = (case renderPage c s of Inl _ \<Rightarrow> s | Inr s' \<Rightarrow> s')"

subsection \<open>Loading a file\<close>

text \<open>The file of the change event: \<open>event.target.files[0]\<close>, absent when none was chosen.\<close>

record uploaded_file =
  file_name :: string
  file_bytes :: bytes

datatype load_result = NoFile | Loaded | LoadAlert

definition handleFileUpload ::
  "collaborators \<Rightarrow> uploaded_file option \<Rightarrow> session \<Rightarrow> session \<times> load_result" where
  "handleFileUpload c ev s =
     (case ev of
        None \<Rightarrow> (s, NoFile)
      | Some file \<Rightarrow>
          (let s1 = s\<lparr> isLoading := True, fileName := file_name file \<rparr>;
               s2 = s1\<lparr> pdfBytes := Some (file_bytes file) \<rparr>
           in case PDFDocument_load c (file_bytes file) of
                None \<Rightarrow> (s2\<lparr> isLoading := False \<rparr>, LoadAlert)
              | Some doc \<Rightarrow>
                  (let s3 = s2\<lparr> pdfDoc := Some doc,
                                 totalPages := int (length doc),
                                 textOverlays := [],
                                 editedTextItems := [],
                                 existingTextItems := [],
                                 selectedTextItem := None \<rparr>
                   in case renderPage c s3 of
                        Inl _ \<Rightarrow> (s3\<lparr> isLoading := False \<rparr>, LoadAlert)
                      | Inr s4 \<Rightarrow> (s4\<lparr> isLoading := False \<rparr>, Loaded))))"

subsection \<open>The edit ledger\<close>

text \<open>
  The handlers receive an element of \<open>existingTextItems\<close> and change it in place. The
  element is named by its position \<open>n\<close> in the array; a position outside the array names
  no element and nothing happens.
\<close>

definition ledger_entry :: "text_item \<Rightarrow> edit" where
  "ledger_entry item =
     \<lparr> edit_text = item_text item,
       edit_originalText = originalText item,
       edit_pdfX = pdfX item,
       edit_pdfY = pdfY item,
       edit_pdfFontSize = pdfFontSize item,
       edit_pdfWidth = pdfWidth item,
       edit_pdfHeight = pdfHeight item,
       edit_fontName = fontName item,
       edit_page = item_page item \<rparr>"

definition finishEditingTextItem :: "nat \<Rightarrow> session \<Rightarrow> session" where
  "finishEditingTextItem n s =
     (if n < length (existingTextItems s) then
        (let item = (existingTextItems s ! n)\<lparr> isEditing := False \<rparr>;
             key = item_id item
         in if item_text item \<noteq> originalText item then
              s\<lparr> existingTextItems := (existingTextItems s)[n := item\<lparr> isEdited := True \<rparr>],
                 editedTextItems := obj_set key (ledger_entry item) (editedTextItems s) \<rparr>
            else
              s\<lparr> existingTextItems := (existingTextItems s)[n := item\<lparr> isEdited := False \<rparr>],
                 editedTextItems := obj_delete key (editedTextItems s) \<rparr>)
      else s)"

definition revertTextItem :: "nat \<Rightarrow> session \<Rightarrow> session" where
  "revertTextItem n s =
     (if n < length (existingTextItems s) then
        (let item = existingTextItems s ! n;
             item' = item\<lparr> item_text := originalText item, isEdited := False \<rparr>
         in s\<lparr> existingTextItems := (existingTextItems s)[n := item'],
               editedTextItems := obj_delete (item_id item') (editedTextItems s),
               selectedTextItem := None \<rparr>)
      else s)"

text \<open>\<open>editedCount\<close>: the number of keys of the ledger.\<close>

definition editedCount :: "session \<Rightarrow> nat" where
  "editedCount s = length (editedTextItems s)"

subsection \<open>Page navigation\<close>

definition prevPage :: "collaborators \<Rightarrow> session \<Rightarrow> session" where
  "prevPage c s =
     (if currentPage s > 1 then
        renderPage_unawaited c
          (s\<lparr> currentPage := currentPage s - 1, selectedTextItem := None \<rparr>)
      else s)"

definition nextPage :: "collaborators \<Rightarrow> session \<Rightarrow> session" where
  "nextPage c s =
     (if currentPage s < totalPages s then
        renderPage_unawaited c
          (s\<lparr> currentPage := currentPage s + 1, selectedTextItem := None \<rparr>)
      else s)"

datatype nav = PrevPage | NextPage

fun navigate :: "collaborators \<Rightarrow> nav \<Rightarrow> session \<Rightarrow> session" where
  "navigate c PrevPage s = prevPage c s"
| "navigate c NextPage s = nextPage c s"

text \<open>A sequence of navigation requests, the first of the list first.\<close>

fun navigate_all :: "collaborators \<Rightarrow> nav list \<Rightarrow> session \<Rightarrow> session" where
  "navigate_all c [] s = s"
| "navigate_all c (r # rs) s = navigate_all c rs (navigate c r s)"

subsection \<open>Saving\<close>

text \<open>
  The drawing calls on pdf-lib pages, with the options the source passes.
  \<open>Rgb r g b\<close> is \<open>rgb(r, g, b)\<close>. \<open>HexColour h\<close> is the colour \<open>rgb\<close> returns for the
  three numbers the source computes from the hexadecimal digits \<open>h\<close> with \<open>parseInt\<close>,
  where it returns one (\<open>validColour\<close>); the numbers themselves are not computed here.
  A rectangle drawn without an opacity option is opaque.
\<close>

datatype colour = Rgb real real real | HexColour string

datatype font = Helvetica

record rectangle_options =
  rect_x :: real
  rect_y :: real
  rect_width :: real
  rect_height :: real
  rect_color :: colour
  rect_borderWidth :: "real option"

record text_options =
  text_x :: real
  text_y :: real
  text_size :: real
  text_font :: font
  text_color :: colour

datatype draw_op = DrawRectangle rectangle_options | DrawText string text_options

text \<open>
  \<open>newPdfDoc.getPage(index)\<close> throws unless the index is one of the document's pages.
\<close>

definition getPage :: "pdf_lib_doc \<Rightarrow> int \<Rightarrow> error + nat" where
  "getPage doc i = (if 0 \<le> i \<and> i < int (length doc) then Inr (nat i) else Inl PageIndexError)"

text \<open>The two calls of the first loop's body, for one ledger entry.\<close>

definition edit_ops :: "collaborators \<Rightarrow> edit \<Rightarrow> draw_op list" where
  "edit_ops c e =
     (let rectPadding = 1;
          ascent = edit_pdfHeight e;
          fontTotalHeight = heightAtSize c (edit_pdfFontSize e) True;
          fontAscentHeight = heightAtSize c (edit_pdfFontSize e) False;
          descent = fontTotalHeight - fontAscentHeight
      in [DrawRectangle
            \<lparr> rect_x = edit_pdfX e - rectPadding,
              rect_y = edit_pdfY e - descent - rectPadding,
              rect_width = edit_pdfWidth e + rectPadding * 2,
              rect_height = ascent + descent + rectPadding * 2,
              rect_color = Rgb 1 1 1,
              rect_borderWidth = Some 0 \<rparr>,
          DrawText (edit_text e)
            \<lparr> text_x = edit_pdfX e,
              text_y = edit_pdfY e,
              text_size = edit_pdfFontSize e,
              text_font = Helvetica,
              text_color = Rgb 0 0 0 \<rparr>])"

definition apply_edit ::
  "collaborators \<Rightarrow> pdf_lib_doc \<Rightarrow> edit \<Rightarrow> error + (nat \<times> draw_op) list" where
  "apply_edit c doc e =
     (case getPage doc (edit_page e - 1) of
        Inl err \<Rightarrow> Inl err
      | Inr p \<Rightarrow>
          if canEncode c (edit_text e) then Inr (map (Pair p) (edit_ops c e))
          else Inl EncodingError)"

text \<open>
  The conversion of a screen point to PDF coordinates in the second loop:
  \<open>overlay.x / scale.value\<close> and \<open>height - (overlay.y / scale.value)\<close>. The source then
  lowers the second by the font size, to the base line of the text.
\<close>

definition toPdf :: "real \<Rightarrow> real \<Rightarrow> real \<times> real \<Rightarrow> real \<times> real" where
  "toPdf zoom height v = (fst v / zoom, height - snd v / zoom)"

definition overlay_ops :: "real \<Rightarrow> real \<Rightarrow> overlay \<Rightarrow> draw_op list" where
  "overlay_ops zoom height ov =
     (let pdfX = fst (toPdf zoom height (ov_x ov, ov_y ov));
          pdfFontSize = ov_fontSize ov / zoom;
          pdfY = snd (toPdf zoom height (ov_x ov, ov_y ov)) - pdfFontSize;
          hex = js_replace ''#'' [] (ov_color ov);
          bgHex = js_replace ''#'' [] (ov_backgroundColor ov);
          rectWidth = ov_bgWidth ov / zoom;
          rectHeight = ov_bgHeight ov / zoom
      in (if ov_bgEnabled ov then
            [DrawRectangle
               \<lparr> rect_x = pdfX,
                 rect_y = pdfY - (rectHeight - pdfFontSize),
                 rect_width = rectWidth,
                 rect_height = rectHeight,
                 rect_color = HexColour bgHex,
                 rect_borderWidth = None \<rparr>]
          else [])
         @ [DrawText (ov_text ov)
              \<lparr> text_x = pdfX,
                text_y = pdfY,
                text_size = pdfFontSize,
                text_font = Helvetica,
                text_color = HexColour hex \<rparr>])"

text \<open>
  One pass of the second loop's body. After \<open>getPage\<close>, the first call that can throw
  is \<open>rgb\<close> for the background (made only when the background is enabled), then
  \<open>rgb\<close> for the text colour, then \<open>drawText\<close>.
\<close>

definition apply_overlay ::
  "collaborators \<Rightarrow> pdf_lib_doc \<Rightarrow> real \<Rightarrow> overlay \<Rightarrow> error + (nat \<times> draw_op) list" where
  "apply_overlay c doc zoom ov =
     (case getPage doc (ov_page ov - 1) of
        Inl err \<Rightarrow> Inl err
      | Inr p \<Rightarrow>
          if ov_bgEnabled ov \<and> \<not> validColour c (js_replace ''#'' [] (ov_backgroundColor ov))
          then Inl ColourError
          else if \<not> validColour c (js_replace ''#'' [] (ov_color ov)) then Inl ColourError
          else if canEncode c (ov_text ov) then
            Inr (map (Pair p) (overlay_ops zoom (snd (doc ! p)) ov))
          else Inl EncodingError)"

text \<open>A \<open>for ... of\<close> loop whose body may throw: the first exception ends it.\<close>

fun for_each :: "('a \<Rightarrow> error + 'b list) \<Rightarrow> 'a list \<Rightarrow> error + 'b list" where
  "for_each body [] = Inr []"
| "for_each body (x # xs) =
     (case body x of
        Inl err \<Rightarrow> Inl err
      | Inr ys \<Rightarrow> (case for_each body xs of Inl err \<Rightarrow> Inl err | Inr zs \<Rightarrow> Inr (ys @ zs)))"

text \<open>
  The saved document is what \<open>newPdfDoc.save()\<close> serialises: the bytes it was parsed
  from and the drawing calls made on its pages (page index and call), in order.
\<close>

record saved_pdf =
  saved_source :: bytes
  saved_drawn :: "(nat \<times> draw_op) list"

text \<open>
  The \<open>try\<close> block up to \<open>save()\<close>. \<open>PDFDocument.load\<close> throws on malformed bytes
  (and on none).
\<close>

definition patch ::
  "collaborators \<Rightarrow> bytes option \<Rightarrow> (string \<times> edit) list \<Rightarrow> overlay list \<Rightarrow> real
     \<Rightarrow> error + saved_pdf" where
  "patch c bs ledger overlays zoom =
     (case bs of
        None \<Rightarrow> Inl LoadError
      | Some b \<Rightarrow>
          (case PDFDocument_load c b of
             None \<Rightarrow> Inl LoadError
           | Some newPdfDoc \<Rightarrow>
               (case for_each (apply_edit c newPdfDoc) (map snd ledger) of
                  Inl err \<Rightarrow> Inl err
                | Inr drawn1 \<Rightarrow>
                    (case for_each (apply_overlay c newPdfDoc zoom) overlays of
                       Inl err \<Rightarrow> Inl err
                     | Inr drawn2 \<Rightarrow>
                         Inr \<lparr> saved_source = b, saved_drawn = drawn1 @ drawn2 \<rparr>))))"

text \<open>
  The outcome of \<open>savePdf\<close>: it returned at once, it alerted an error, or it offered
  the saved document for download under a name.
\<close>

datatype save_result = NotSaved | SaveAlert error | Downloaded string saved_pdf

definition savePdf :: "collaborators \<Rightarrow> session \<Rightarrow> session \<times> save_result" where
  "savePdf c s =
     (case pdfDoc s of
        None \<Rightarrow> (s, NotSaved)
      | Some _ \<Rightarrow>
          (let s1 = s\<lparr> isLoading := True \<rparr>;
               r = (case patch c (pdfBytes s1) (editedTextItems s1) (textOverlays s1) (scale s1) of
                      Inl err \<Rightarrow> SaveAlert err
                    | Inr out \<Rightarrow>
                        Downloaded (js_replace ''.pdf'' ''_edited.pdf'' (fileName s1)) out)
           in (s1\<lparr> isLoading := False \<rparr>, r)))"

subsection \<open>Typing, new overlays and the page viewport\<close>

text \<open>
  \<open>v-model="item.text"\<close> on the input of a run writes what the user types into the
  element at position \<open>n\<close>.
\<close>

definition typeText :: "nat \<Rightarrow> string \<Rightarrow> session \<Rightarrow> session" where
  "typeText n t s =
     (if n < length (existingTextItems s) then
        s\<lparr> existingTextItems :=
             (existingTextItems s)[n := (existingTextItems s ! n)\<lparr> item_text := t \<rparr>] \<rparr>
      else s)"

text \<open>The object \<open>newOverlay\<close> of \<open>handleCanvasClick\<close>, with \<open>Date.now()\<close> as \<open>now\<close>.\<close>

definition newOverlay :: "int \<Rightarrow> real \<Rightarrow> real \<Rightarrow> int \<Rightarrow> overlay" where
  "newOverlay now x y page =
     \<lparr> ov_id = now, ov_x = x, ov_y = y, ov_text = ''New text'', ov_fontSize = 16,
       ov_color = ''#000000'', ov_backgroundColor = ''#ffffff'', ov_bgEnabled = True,
       ov_bgWidth = 120, ov_bgHeight = 22, ov_page = page, ov_isEditing = True \<rparr>"

text \<open>
  Modelled from the spec: the viewport transform comes from the rasterizer (pdf.js), which
  is not part of the source. Section 4.1 gives \<open>viewport.x = pdf.x * zoom\<close> and
  \<open>viewport.y = (H - pdf.y) * zoom\<close> for a page of height \<open>H\<close>; as a transform array this
  is \<open>[zoom, 0, 0, -zoom, 0, H * zoom]\<close>, with all lengths scaled by \<open>zoom\<close>.
\<close>

definition spec_viewport :: "real \<Rightarrow> real \<Rightarrow> real \<Rightarrow> viewport" where
  "spec_viewport W H zoom =
     \<lparr> vp_transform = \<lparr> t0 = zoom, t1 = 0, t2 = 0, t3 = - zoom, t4 = 0, t5 = H * zoom \<rparr>,
       vp_scale = zoom, vp_width = W * zoom, vp_height = H * zoom \<rparr>"

subsection \<open>A two-page document used in the examples\<close>

text \<open>
  Page 1 holds a blank run and the run "Invoice #001" at (50, 700) with font size 12;
  page 2 holds one run whose glyphs are narrowed to two thirds of their width. The font
  heights are those of Helvetica: 925 and 718 thousandths of the size. The colours
  accepted are those of six hexadecimal digits, which is what a colour input writes.
\<close>

definition blank_run :: text_content_item where
  "blank_run =
     \<lparr> tc_str = ''  '',
       tc_transform = \<lparr> t0 = 12, t1 = 0, t2 = 0, t3 = 12, t4 = 40, t5 = 700 \<rparr>,
       tc_width = 6, tc_height = 12, tc_fontName = ''g_d0_f1'' \<rparr>"

definition invoice_run :: text_content_item where
  "invoice_run =
     \<lparr> tc_str = ''Invoice #001'',
       tc_transform = \<lparr> t0 = 12, t1 = 0, t2 = 0, t3 = 12, t4 = 50, t5 = 700 \<rparr>,
       tc_width = 70, tc_height = 12, tc_fontName = ''g_d0_f1'' \<rparr>"

definition narrow_run :: text_content_item where
  "narrow_run =
     \<lparr> tc_str = ''Total'',
       tc_transform = \<lparr> t0 = 8, t1 = 0, t2 = 0, t3 = 12, t4 = 50, t5 = 100 \<rparr>,
       tc_width = 20, tc_height = 12, tc_fontName = ''g_d0_f1'' \<rparr>"

definition invoice_bytes :: bytes where
  "invoice_bytes = [0x25, 0x50, 0x44, 0x46]"

definition invoice_pages :: "pdfjs_page list" where
  "invoice_pages =
     [\<lparr> getViewport = spec_viewport 612 792, getTextContent = [blank_run, invoice_run] \<rparr>,
      \<lparr> getViewport = spec_viewport 612 792, getTextContent = [narrow_run] \<rparr>]"

definition example_collaborators :: collaborators where
  "example_collaborators =
     \<lparr> PDFDocument_load =
         (\<lambda>bs. if bs = invoice_bytes then Some [(612, 792), (612, 792)] else None),
       getDocument = (\<lambda>bs. if bs = invoice_bytes then Some invoice_pages else None),
       heightAtSize = (\<lambda>size descender. (if descender then 925 else 718) / 1000 * size),
       canEncode = (\<lambda>t. True),
       validColour =
         (\<lambda>h. length h = 6 \<and> list_all (\<lambda>ch. ch \<in> set ''0123456789abcdefABCDEF'') h) \<rparr>"

definition invoice_file :: uploaded_file where
  "invoice_file = \<lparr> file_name = ''invoice.pdf'', file_bytes = invoice_bytes \<rparr>"

definition broken_file :: uploaded_file where
  "broken_file = \<lparr> file_name = ''broken.pdf'', file_bytes = [0] \<rparr>"

definition loaded_session :: session where
  "loaded_session =
     fst (handleFileUpload example_collaborators (Some invoice_file) initial_session)"

definition edited_session :: session where
  "edited_session = finishEditingTextItem 0 (typeText 0 ''Invoice #002'' loaded_session)"

definition overlay_session :: session where
  "overlay_session = loaded_session\<lparr> textOverlays := [newOverlay 1700000000000 100 200 1] \<rparr>"

definition invoice_item :: text_item where
  "invoice_item =
     \<lparr> item_id = ''1-1'', item_index = 1, originalText = ''Invoice #001'',
       item_text = ''Invoice #001'', item_x = 75, item_y = 120, item_width = 105,
       item_height = 18, fontSize = 18, item_page = 1, isEdited = False,
       fontName = ''g_d0_f1'', pdfX = 50, pdfY = 700, pdfFontSize = 12, pdfWidth = 70,
       pdfHeight = 12, isEditing = False \<rparr>"

definition invoice_edit :: edit where
  "invoice_edit =
     \<lparr> edit_text = ''Invoice #002'', edit_originalText = ''Invoice #001'', edit_pdfX = 50,
       edit_pdfY = 700, edit_pdfFontSize = 12, edit_pdfWidth = 70, edit_pdfHeight = 12,
       edit_fontName = ''g_d0_f1'', edit_page = 1 \<rparr>"



text \<open>
  The viewports pdf.js returns at scale 1.5 for a page of 612 by 792 that is shown
  rotated by 90 degrees (\<open>/Rotate 90\<close>), and for a page of that size whose box starts at
  (10, 20) instead of the origin.
\<close>

definition rotated_viewport :: viewport where
  "rotated_viewport =
     \<lparr> vp_transform = \<lparr> t0 = 0, t1 = 3 / 2, t2 = 3 / 2, t3 = 0, t4 = 0, t5 = 0 \<rparr>,
       vp_scale = 3 / 2, vp_width = 1188, vp_height = 918 \<rparr>"

definition shifted_viewport :: viewport where
  "shifted_viewport =
     \<lparr> vp_transform = \<lparr> t0 = 3 / 2, t1 = 0, t2 = 0, t3 = - (3 / 2), t4 = - 15, t5 = 1218 \<rparr>,
       vp_scale = 3 / 2, vp_width = 918, vp_height = 1188 \<rparr>"

definition invoice_saved :: saved_pdf where
  "invoice_saved =
     \<lparr> saved_source = invoice_bytes,
       saved_drawn =
         [(0, DrawRectangle
                \<lparr> rect_x = 49, rect_y = 696516 / 1000, rect_width = 72,
                  rect_height = 16484 / 1000, rect_color = Rgb 1 1 1,
                  rect_borderWidth = Some 0 \<rparr>),
          (0, DrawText ''Invoice #002''
                \<lparr> text_x = 50, text_y = 700, text_size = 12, text_font = Helvetica,
                  text_color = Rgb 0 0 0 \<rparr>)] \<rparr>"

definition overlay_saved :: saved_pdf where
  "overlay_saved =
     \<lparr> saved_source = invoice_bytes,
       saved_drawn =
         [(0, DrawRectangle
                \<lparr> rect_x = 200 / 3, rect_y = 644, rect_width = 80, rect_height = 44 / 3,
                  rect_color = HexColour ''ffffff'', rect_borderWidth = None \<rparr>),
          (0, DrawText ''New text''
                \<lparr> text_x = 200 / 3, text_y = 648, text_size = 32 / 3, text_font = Helvetica,
                  text_color = HexColour ''000000'' \<rparr>)] \<rparr>"

section \<open>Properties\<close>

text \<open>The equation of \<open>string_of_nat\<close> is unfolded where it is needed, not by default.\<close>

declare string_of_nat.simps [simp del]

subsection \<open>Dictionaries\<close>

lemma obj_get_set: "obj_get (obj_set k v ps) k' = (if k' = k then Some v else obj_get ps k')"
  by (induction ps) (auto simp: obj_get_def)

lemma obj_get_delete: "obj_get (obj_delete k ps) k' = (if k' = k then None else obj_get ps k')"
  by (induction ps) (auto simp: obj_get_def obj_delete_def)

lemma keys_obj_set:
  "map fst (obj_set k v ps) = (if k \<in> set (map fst ps) then map fst ps else map fst ps @ [k])"
  by (induction ps) auto

lemma obj_ok_set: "obj_ok ps \<Longrightarrow> obj_ok (obj_set k v ps)"
  by (simp add: obj_ok_def keys_obj_set)

lemma obj_ok_delete: "obj_ok ps \<Longrightarrow> obj_ok (obj_delete k ps)"
  by (simp add: obj_ok_def obj_delete_def distinct_map_filter)

lemma obj_set_once: "obj_ok ps \<Longrightarrow> length (filter (\<lambda>p. fst p = k) (obj_set k v ps)) = 1"
proof (induction ps)
  case Nil
  then show ?case by simp
next
  case (Cons p ps)
  have "fst p = k \<Longrightarrow> filter (\<lambda>q. fst q = k) ps = []"
    using Cons.prems by (auto simp: obj_ok_def filter_empty_conv image_iff)
  with Cons show ?case by (auto simp: obj_ok_def)
qed

lemma obj_delete_absent: "k \<notin> fst ` set ps \<Longrightarrow> obj_delete k ps = ps"
  by (induction ps) (auto simp: obj_delete_def)

lemma obj_delete_keys: "k \<notin> fst ` set (obj_delete k ps)"
  by (auto simp: obj_delete_def)

lemma obj_delete_twice: "obj_delete k (obj_delete k ps) = obj_delete k ps"
  by (simp add: obj_delete_def)

lemma obj_get_None: "obj_get ps k = None \<longleftrightarrow> k \<notin> fst ` set ps"
  by (simp add: obj_get_def map_of_eq_None_iff)

subsection \<open>Blank runs\<close>



subsection \<open>The example document\<close>

lemma sqrt_64: "sqrt 64 = 8"
proof -
  have "sqrt (8 * 8) = \<bar>8\<bar>" by (rule real_sqrt_abs2)
  then show ?thesis by simp
qed

lemma sqrt_144: "sqrt 144 = 12"
proof -
  have "sqrt (12 * 12) = \<bar>12\<bar>" by (rule real_sqrt_abs2)
  then show ?thesis by simp
qed

lemma sqrt_324: "sqrt 324 = 18"
proof -
  have "sqrt (18 * 18) = \<bar>18\<bar>" by (rule real_sqrt_abs2)
  then show ?thesis by simp
qed

lemma itemKey_1_1: "itemKey 1 (Suc 0) = ''1-1''"
  by code_simp

lemma skipped_blank_run: "skipped blank_run"
  by (simp add: skipped_def blank_run_def js_trim_def is_space_def)

lemma not_skipped_invoice_run: "\<not> skipped invoice_run"
  by (simp add: skipped_def invoice_run_def js_trim_def is_space_def)

lemma not_skipped_narrow_run: "\<not> skipped narrow_run"
  by (simp add: skipped_def narrow_run_def js_trim_def is_space_def)

lemma make_invoice_item:
  "make_item 1 [] (spec_viewport 612 792 (3 / 2)) (Suc 0) invoice_run = invoice_item"
  by (simp add: make_item_def Let_def toViewport_def Util_transform_def spec_viewport_def
      invoice_run_def invoice_item_def itemKey_1_1 obj_get_def sqrt_144 sqrt_324)

lemma loaded_session_value:
  "loaded_session =
     \<lparr> pdfDoc = Some [(612, 792), (612, 792)], pdfBytes = Some invoice_bytes, currentPage = 1,
       totalPages = 2, scale = 3 / 2, textOverlays = [], isLoading = False,
       fileName = ''invoice.pdf'', existingTextItems = [invoice_item],
       editedTextItems = [], selectedTextItem = None \<rparr>"
  by (simp add: loaded_session_def handleFileUpload_def example_collaborators_def
      invoice_file_def initial_session_def renderPage_def extractTextItems_def Let_def
      invoice_pages_def skipped_blank_run not_skipped_invoice_run make_invoice_item)

lemma edited_session_value:
  "edited_session =
     \<lparr> pdfDoc = Some [(612, 792), (612, 792)], pdfBytes = Some invoice_bytes, currentPage = 1,
       totalPages = 2, scale = 3 / 2, textOverlays = [], isLoading = False,
       fileName = ''invoice.pdf'',
       existingTextItems = [invoice_item\<lparr> item_text := ''Invoice #002'', isEdited := True \<rparr>],
       editedTextItems = [(''1-1'', invoice_edit)], selectedTextItem = None \<rparr>"
  by (simp add: edited_session_def loaded_session_value typeText_def finishEditingTextItem_def
      Let_def invoice_item_def invoice_edit_def ledger_entry_def)

lemma save_edited_session:
  "savePdf example_collaborators edited_session
     = (edited_session, Downloaded ''invoice_edited.pdf'' invoice_saved)"
  by (simp add: savePdf_def edited_session_value patch_def example_collaborators_def
      apply_edit_def getPage_def edit_ops_def Let_def invoice_edit_def invoice_saved_def)

lemma save_overlay_session:
  "savePdf example_collaborators overlay_session
     = (overlay_session, Downloaded ''invoice_edited.pdf'' overlay_saved)"
  by (simp add: savePdf_def overlay_session_def loaded_session_value patch_def
      example_collaborators_def apply_overlay_def getPage_def overlay_ops_def toPdf_def
      Let_def newOverlay_def overlay_saved_def)

subsection \<open>Saving\<close>

lemma for_each_mem:
  "for_each body xs = Inr ys \<Longrightarrow> x \<in> set xs \<Longrightarrow>
   \<exists>zs before after. body x = Inr zs \<and> ys = before @ zs @ after"
proof (induction xs arbitrary: ys)
  case Nil
  then show ?case by simp
next
  case (Cons a xs)
  from Cons.prems(1) obtain as rest where a: "body a = Inr as"
    and rest: "for_each body xs = Inr rest" and ys: "ys = as @ rest"
    by (auto split: sum.splits)
  show ?case
  proof (cases "x = a")
    case True
    with a ys have "body x = Inr as \<and> ys = [] @ as @ rest" by simp
    then show ?thesis by blast
  next
    case False
    with Cons.prems(2) have "x \<in> set xs" by simp
    from Cons.IH [OF rest this] obtain zs before after
      where "body x = Inr zs" and "rest = before @ zs @ after" by blast
    with ys have "body x = Inr zs \<and> ys = (as @ before) @ zs @ after" by simp
    then show ?thesis by blast
  qed
qed

lemma for_each_total:
  "\<forall>x\<in>set xs. \<exists>zs. body x = Inr zs \<Longrightarrow> \<exists>ys. for_each body xs = Inr ys"
  by (induction xs) auto

lemma savePdf_Downloaded:
  assumes "snd (savePdf c s) = Downloaded name out"
  shows "\<exists>b doc drawn1 drawn2.
           pdfBytes s = Some b \<and> PDFDocument_load c b = Some doc
           \<and> for_each (apply_edit c doc) (map snd (editedTextItems s)) = Inr drawn1
           \<and> for_each (apply_overlay c doc (scale s)) (textOverlays s) = Inr drawn2
           \<and> saved_drawn out = drawn1 @ drawn2 \<and> saved_source out = b"
  using assms
  by (auto simp: savePdf_def patch_def Let_def split: option.splits sum.splits)

lemma apply_edit_Inr:
  "apply_edit c doc e = Inr zs \<Longrightarrow>
   1 \<le> edit_page e \<and> edit_page e \<le> int (length doc)
   \<and> zs = map (Pair (nat (edit_page e - 1))) (edit_ops c e)"
  by (auto simp: apply_edit_def getPage_def split: if_splits)

lemma apply_overlay_Inr:
  "apply_overlay c doc z ov = Inr zs \<Longrightarrow>
   1 \<le> ov_page ov \<and> ov_page ov \<le> int (length doc)
   \<and> zs = map (Pair (nat (ov_page ov - 1))) (overlay_ops z (snd (doc ! nat (ov_page ov - 1))) ov)"
  by (simp add: apply_overlay_def getPage_def split: if_splits)

text \<open>
  The save succeeds when the bytes parse, every entry and overlay names a page of the
  document, every text can be encoded and every colour used is accepted.
\<close>

lemma savePdf_succeeds:
  assumes "pdfDoc s \<noteq> None" and "pdfBytes s = Some b" and "PDFDocument_load c b = Some doc"
    and edits: "\<forall>p\<in>set (editedTextItems s).
           1 \<le> edit_page (snd p) \<and> edit_page (snd p) \<le> int (length doc)
           \<and> canEncode c (edit_text (snd p))"
    and overlays: "\<forall>ov\<in>set (textOverlays s).
           1 \<le> ov_page ov \<and> ov_page ov \<le> int (length doc) \<and> canEncode c (ov_text ov)
           \<and> validColour c (js_replace ''#'' [] (ov_color ov))
           \<and> validColour c (js_replace ''#'' [] (ov_backgroundColor ov))"
  shows "\<exists>name out. snd (savePdf c s) = Downloaded name out \<and> saved_source out = b"
proof -
  have "\<forall>e\<in>set (map snd (editedTextItems s)). \<exists>zs. apply_edit c doc e = Inr zs"
    using edits by (auto simp: apply_edit_def getPage_def)
  from for_each_total [OF this] obtain drawn1
    where d1: "for_each (apply_edit c doc) (map snd (editedTextItems s)) = Inr drawn1" by blast
  have "\<forall>ov\<in>set (textOverlays s). \<exists>zs. apply_overlay c doc (scale s) ov = Inr zs"
    using overlays by (auto simp: apply_overlay_def getPage_def)
  from for_each_total [OF this] obtain drawn2
    where d2: "for_each (apply_overlay c doc (scale s)) (textOverlays s) = Inr drawn2" by blast
  from assms(1-3) d1 d2 show ?thesis
    by (auto simp: savePdf_def patch_def Let_def)
qed

subsection \<open>The document patcher and ledger entries\<close>

text \<open>
  C1. When a save produces a document, then for every entry of the edit ledger the
  entry's page is a page of the freshly parsed document, and the calls made on it contain,
  one right after the other, a white rectangle without border at
  \<open>x = pdfX - 1\<close>, \<open>y = pdfY - descent - 1\<close> of width \<open>pdfWidth + 2 * 1\<close> and height
  \<open>pdfHeight + descent + 2 * 1\<close>, where \<open>descent\<close> is the font's height at
  \<open>pdfFontSize\<close> less its height without descender, and the entry's new text at
  \<open>(pdfX, pdfY)\<close> in Helvetica at size \<open>pdfFontSize\<close> in black.
\<close>

theorem savePdf_erases_and_redraws:
  assumes "snd (savePdf c s) = Downloaded name out" and "(k, e) \<in> set (editedTextItems s)"
  shows "\<exists>b doc before after.
           pdfBytes s = Some b \<and> PDFDocument_load c b = Some doc
           \<and> 1 \<le> edit_page e \<and> edit_page e \<le> int (length doc)
           \<and> saved_drawn out = before @
               [(nat (edit_page e - 1),
                 DrawRectangle
                   \<lparr> rect_x = edit_pdfX e - 1,
                     rect_y = edit_pdfY e
                       - (heightAtSize c (edit_pdfFontSize e) True
                          - heightAtSize c (edit_pdfFontSize e) False) - 1,
                     rect_width = edit_pdfWidth e + 2 * 1,
                     rect_height = edit_pdfHeight e
                       + (heightAtSize c (edit_pdfFontSize e) True
                          - heightAtSize c (edit_pdfFontSize e) False) + 2 * 1,
                     rect_color = Rgb 1 1 1,
                     rect_borderWidth = Some 0 \<rparr>),
                (nat (edit_page e - 1),
                 DrawText (edit_text e)
                   \<lparr> text_x = edit_pdfX e, text_y = edit_pdfY e,
                     text_size = edit_pdfFontSize e, text_font = Helvetica,
                     text_color = Rgb 0 0 0 \<rparr>)] @ after"
proof -
  from savePdf_Downloaded [OF assms(1)] obtain b doc drawn1 drawn2
    where b: "pdfBytes s = Some b" and doc: "PDFDocument_load c b = Some doc"
      and edits: "for_each (apply_edit c doc) (map snd (editedTextItems s)) = Inr drawn1"
      and drawn: "saved_drawn out = drawn1 @ drawn2" by blast
  from assms(2) have "e \<in> set (map snd (editedTextItems s))" by force
  from for_each_mem [OF edits this] obtain zs before after
    where zs: "apply_edit c doc e = Inr zs" and d1: "drawn1 = before @ zs @ after" by blast
  note page = apply_edit_Inr [OF zs]
  from page d1 drawn have "saved_drawn out
      = before @ map (Pair (nat (edit_page e - 1))) (edit_ops c e) @ (after @ drawn2)" by simp
  then have "saved_drawn out = before @
               [(nat (edit_page e - 1),
                 DrawRectangle
                   \<lparr> rect_x = edit_pdfX e - 1,
                     rect_y = edit_pdfY e
                       - (heightAtSize c (edit_pdfFontSize e) True
                          - heightAtSize c (edit_pdfFontSize e) False) - 1,
                     rect_width = edit_pdfWidth e + 2 * 1,
                     rect_height = edit_pdfHeight e
                       + (heightAtSize c (edit_pdfFontSize e) True
                          - heightAtSize c (edit_pdfFontSize e) False) + 2 * 1,
                     rect_color = Rgb 1 1 1,
                     rect_borderWidth = Some 0 \<rparr>),
                (nat (edit_page e - 1),
                 DrawText (edit_text e)
                   \<lparr> text_x = edit_pdfX e, text_y = edit_pdfY e,
                     text_size = edit_pdfFontSize e, text_font = Helvetica,
                     text_color = Rgb 0 0 0 \<rparr>)] @ (after @ drawn2)"
    by (simp add: edit_ops_def Let_def)
  with b doc page show ?thesis by blast
qed

theorem savePdf_erases_and_redraws_witness:
  "snd (savePdf example_collaborators edited_session)
     = Downloaded ''invoice_edited.pdf'' invoice_saved
   \<and> (''1-1'', invoice_edit) \<in> set (editedTextItems edited_session)
   \<and> (\<exists>before after.
         saved_drawn invoice_saved = before @
           [(0, DrawRectangle
                  \<lparr> rect_x = 49, rect_y = 696516 / 1000, rect_width = 72,
                    rect_height = 16484 / 1000, rect_color = Rgb 1 1 1,
                    rect_borderWidth = Some 0 \<rparr>),
            (0, DrawText ''Invoice #002''
                  \<lparr> text_x = 50, text_y = 700, text_size = 12, text_font = Helvetica,
                    text_color = Rgb 0 0 0 \<rparr>)] @ after)"
proof -
  have saved: "snd (savePdf example_collaborators edited_session)
      = Downloaded ''invoice_edited.pdf'' invoice_saved"
    by (simp add: save_edited_session)
  have entry: "(''1-1'', invoice_edit) \<in> set (editedTextItems edited_session)"
    by (simp add: edited_session_value)
  from savePdf_erases_and_redraws [OF saved entry]
  have "\<exists>before after.
         saved_drawn invoice_saved = before @
           [(0, DrawRectangle
                  \<lparr> rect_x = 49, rect_y = 696516 / 1000, rect_width = 72,
                    rect_height = 16484 / 1000, rect_color = Rgb 1 1 1,
                    rect_borderWidth = Some 0 \<rparr>),
            (0, DrawText ''Invoice #002''
                  \<lparr> text_x = 50, text_y = 700, text_size = 12, text_font = Helvetica,
                    text_color = Rgb 0 0 0 \<rparr>)] @ after"
    by (auto simp: invoice_edit_def example_collaborators_def)
  with saved entry show ?thesis by blast
qed

subsection \<open>The font size of a run\<close>

text \<open>
  C2, as the source has it. For every extracted run with glyph transform
  \<open>[a, b, c, d, e, f]\<close> the derived \<open>pdfFontSize\<close> is \<open>sqrt(c\<^sup>2 + d\<^sup>2)\<close>, computed from the
  elements 2 and 3 of the transform: the runs extracted from a text content have, in
  order, these sizes for the runs that are not skipped.
\<close>

theorem pdfFontSize_from_c_d:
  "map pdfFontSize (extract_from page ledger vp i items)
     = map (\<lambda>item. sqrt ((t2 (tc_transform item))\<^sup>2 + (t3 (tc_transform item))\<^sup>2))
         (filter (\<lambda>item. \<not> skipped item) items)"
  by (induction items arbitrary: i) (simp_all add: make_item_def Let_def power2_eq_square)

theorem pdfFontSize_from_c_d_witness:
  "map pdfFontSize (extract_from 2 [] (spec_viewport 612 792 1) 0 [narrow_run]) = [12]"
  using pdfFontSize_from_c_d [of 2 "[]" "spec_viewport 612 792 1" 0 "[narrow_run]"]
  by (simp add: not_skipped_narrow_run) (simp add: narrow_run_def sqrt_144)

text \<open>
  The claim as stated, with \<open>sqrt(a\<^sup>2 + b\<^sup>2)\<close>, fails for a run whose glyphs are narrowed:
  with the transform \<open>[8, 0, 0, 12, 50, 100]\<close> the source derives 12, not 8.
\<close>

theorem pdfFontSize_from_a_b_counterexample:
  "map pdfFontSize (extract_from 2 [] (spec_viewport 612 792 1) 0 [narrow_run]) = [12]
   \<and> sqrt ((t0 (tc_transform narrow_run))\<^sup>2 + (t1 (tc_transform narrow_run))\<^sup>2) = 8
   \<and> map pdfFontSize (extract_from 2 [] (spec_viewport 612 792 1) 0 [narrow_run])
       \<noteq> [sqrt ((t0 (tc_transform narrow_run))\<^sup>2 + (t1 (tc_transform narrow_run))\<^sup>2)]"
  by (simp add: not_skipped_narrow_run make_item_def Let_def) (simp add: narrow_run_def sqrt_144)

subsection \<open>Committing an edit\<close>

text \<open>
  C3. After \<open>finishEditingTextItem\<close> on a run of the page, with a ledger that has each
  key once: if the run's text differs from its original text, the ledger holds exactly
  one entry under the run's id, and it records the new text, the original text, the
  run's \<open>pdfX\<close>, \<open>pdfY\<close>, \<open>pdfFontSize\<close>, \<open>pdfWidth\<close>, \<open>pdfHeight\<close> and its page; if
  the text equals the original text, the ledger has no entry under the run's id. The
  ledger still has each key once.
\<close>

theorem finishEditingTextItem_ledger:
  assumes "n < length (existingTextItems s)" and "obj_ok (editedTextItems s)"
  shows "(item_text (existingTextItems s ! n) \<noteq> originalText (existingTextItems s ! n) \<longrightarrow>
            obj_get (editedTextItems (finishEditingTextItem n s)) (item_id (existingTextItems s ! n))
              = Some \<lparr> edit_text = item_text (existingTextItems s ! n),
                       edit_originalText = originalText (existingTextItems s ! n),
                       edit_pdfX = pdfX (existingTextItems s ! n),
                       edit_pdfY = pdfY (existingTextItems s ! n),
                       edit_pdfFontSize = pdfFontSize (existingTextItems s ! n),
                       edit_pdfWidth = pdfWidth (existingTextItems s ! n),
                       edit_pdfHeight = pdfHeight (existingTextItems s ! n),
                       edit_fontName = fontName (existingTextItems s ! n),
                       edit_page = item_page (existingTextItems s ! n) \<rparr>
          \<and> length (filter (\<lambda>p. fst p = item_id (existingTextItems s ! n))
                (editedTextItems (finishEditingTextItem n s))) = 1)
       \<and> (item_text (existingTextItems s ! n) = originalText (existingTextItems s ! n) \<longrightarrow>
            obj_get (editedTextItems (finishEditingTextItem n s)) (item_id (existingTextItems s ! n))
              = None
          \<and> item_id (existingTextItems s ! n)
              \<notin> fst ` set (editedTextItems (finishEditingTextItem n s)))
       \<and> obj_ok (editedTextItems (finishEditingTextItem n s))"
  using assms
  by (simp add: finishEditingTextItem_def Let_def obj_get_set obj_get_delete obj_set_once
      ledger_entry_def obj_delete_keys obj_ok_set obj_ok_delete)

lemma typed_new_text:
  "typeText 0 ''Invoice #002'' loaded_session
     = loaded_session\<lparr> existingTextItems := [invoice_item\<lparr> item_text := ''Invoice #002'' \<rparr>] \<rparr>"
  by (simp add: typeText_def loaded_session_value)

lemma typed_old_text:
  "typeText 0 ''Invoice #001'' edited_session
     = edited_session\<lparr> existingTextItems := [invoice_item\<lparr> isEdited := True \<rparr>] \<rparr>"
  by (simp add: typeText_def edited_session_value invoice_item_def)

theorem finishEditingTextItem_ledger_witness:
  "obj_get (editedTextItems (finishEditingTextItem 0 (typeText 0 ''Invoice #002'' loaded_session)))
      ''1-1'' = Some invoice_edit
   \<and> length (filter (\<lambda>p. fst p = ''1-1'')
        (editedTextItems (finishEditingTextItem 0 (typeText 0 ''Invoice #002'' loaded_session)))) = 1
   \<and> obj_get (editedTextItems (finishEditingTextItem 0 (typeText 0 ''Invoice #001'' edited_session)))
      ''1-1'' = None"
proof -
  have new: "0 < length (existingTextItems (typeText 0 ''Invoice #002'' loaded_session))"
    "obj_ok (editedTextItems (typeText 0 ''Invoice #002'' loaded_session))"
    by (simp_all add: typed_new_text) (simp_all add: loaded_session_value obj_ok_def)
  have old: "0 < length (existingTextItems (typeText 0 ''Invoice #001'' edited_session))"
    "obj_ok (editedTextItems (typeText 0 ''Invoice #001'' edited_session))"
    by (simp_all add: typed_old_text) (simp_all add: edited_session_value obj_ok_def)
  from finishEditingTextItem_ledger [OF new] finishEditingTextItem_ledger [OF old]
  show ?thesis
    by (simp add: typed_new_text typed_old_text)
      (simp add: loaded_session_value edited_session_value invoice_item_def invoice_edit_def)
qed

subsection \<open>Re-extraction at another zoom\<close>



















subsection \<open>Saving leaves the session alone\<close>

text \<open>
  C5. Whatever \<open>savePdf\<close> does (it returns at once, alerts an error or offers the saved
  document), the session afterwards is the session before, but for \<open>isLoading\<close>, which is
  false after a save that was attempted; the edit ledger and the overlays are unchanged,
  and a second save right after gives the same outcome as the first.
\<close>

theorem savePdf_leaves_session:
  "fst (savePdf c s) = (if pdfDoc s = None then s else s\<lparr> isLoading := False \<rparr>)
   \<and> editedTextItems (fst (savePdf c s)) = editedTextItems s
   \<and> textOverlays (fst (savePdf c s)) = textOverlays s
   \<and> snd (savePdf c (fst (savePdf c s))) = snd (savePdf c s)"
  by (simp add: savePdf_def Let_def split: option.splits)

theorem savePdf_leaves_session_witness:
  "editedTextItems (fst (savePdf example_collaborators edited_session)) = [(''1-1'', invoice_edit)]
   \<and> snd (savePdf example_collaborators (fst (savePdf example_collaborators edited_session)))
       = Downloaded ''invoice_edited.pdf'' invoice_saved"
  using savePdf_leaves_session [of example_collaborators edited_session]
  by (simp add: save_edited_session) (simp add: edited_session_value)

text \<open>A save can fail: the bytes held after a failed load do not parse.\<close>

lemma savePdf_can_fail:
  "snd (savePdf example_collaborators (loaded_session\<lparr> pdfBytes := Some [0] \<rparr>))
     = SaveAlert LoadError"
  by (simp add: savePdf_def patch_def Let_def loaded_session_value example_collaborators_def
      invoice_bytes_def)

text \<open>A save fails on an overlay whose colour is not accepted.\<close>

lemma savePdf_rejects_colour:
  "snd (savePdf example_collaborators
      (overlay_session\<lparr> textOverlays := [(newOverlay 1 100 200 1)\<lparr> ov_color := ''red'' \<rparr>] \<rparr>))
     = SaveAlert ColourError"
  by (simp add: savePdf_def overlay_session_def loaded_session_value patch_def
      example_collaborators_def apply_overlay_def getPage_def Let_def newOverlay_def)

subsection \<open>The coordinate conversions\<close>

text \<open>
  C6, as the source has it. Let \<open>z > 0\<close>. On a page whose viewport has the transform
  \<open>[z, 0, 0, -z, 0, H * z]\<close> (the mapping \<open>x * z\<close>, \<open>(H - y) * z\<close> of an upright page
  of height \<open>H\<close> whose box starts at the origin), converting a PDF point to canvas
  coordinates, as the extraction does, and back to PDF coordinates with the height
  \<open>H\<close>, as the save does, gives the point again, and so does converting a screen point
  to PDF coordinates and back. On a viewport with any other transform the first round
  trip does not give back every point.
\<close>

theorem toPdf_toViewport_inverse:
  assumes "0 < z"
  shows "(vp_transform vp = \<lparr> t0 = z, t1 = 0, t2 = 0, t3 = - z, t4 = 0, t5 = H * z \<rparr> \<longrightarrow>
            toPdf z H (toViewport vp m) = (t4 m, t5 m)
            \<and> toViewport vp (m\<lparr> t4 := fst (toPdf z H v), t5 := snd (toPdf z H v) \<rparr>) = v)
       \<and> ((\<forall>m. toPdf z H (toViewport vp m) = (t4 m, t5 m)) \<longrightarrow>
            vp_transform vp = \<lparr> t0 = z, t1 = 0, t2 = 0, t3 = - z, t4 = 0, t5 = H * z \<rparr>)"
proof (intro conjI impI)
  assume "vp_transform vp = \<lparr> t0 = z, t1 = 0, t2 = 0, t3 = - z, t4 = 0, t5 = H * z \<rparr>"
  with assms show "toPdf z H (toViewport vp m) = (t4 m, t5 m)"
    by (simp add: toPdf_def toViewport_def Util_transform_def Let_def field_simps)
next
  assume "vp_transform vp = \<lparr> t0 = z, t1 = 0, t2 = 0, t3 = - z, t4 = 0, t5 = H * z \<rparr>"
  with assms show "toViewport vp (m\<lparr> t4 := fst (toPdf z H v), t5 := snd (toPdf z H v) \<rparr>) = v"
    by (simp add: toPdf_def toViewport_def Util_transform_def Let_def field_simps prod_eq_iff)
next
  assume all: "\<forall>m. toPdf z H (toViewport vp m) = (t4 m, t5 m)"
  define V where "V = vp_transform vp"
  have point: "(t0 V * e + t2 V * f + t4 V) / z = e \<and> H - (t1 V * e + t3 V * f + t5 V) / z = f"
    for e f
    using all [rule_format, of "\<lparr> t0 = 0, t1 = 0, t2 = 0, t3 = 0, t4 = e, t5 = f \<rparr>"]
    by (simp add: toPdf_def toViewport_def Util_transform_def Let_def V_def)
  from point [of 0 0] assms have o: "t4 V = 0" "t5 V = H * z" by (simp_all add: field_simps)
  from point [of 1 0] assms o have x: "t0 V = z" "t1 V = 0" by (simp_all add: field_simps)
  from point [of 0 1] assms o have y: "t2 V = 0" "t3 V = - z" by (simp_all add: field_simps)
  from o x y have "V = \<lparr> t0 = z, t1 = 0, t2 = 0, t3 = - z, t4 = 0, t5 = H * z \<rparr>"
    by (cases V) simp
  then show "vp_transform vp = \<lparr> t0 = z, t1 = 0, t2 = 0, t3 = - z, t4 = 0, t5 = H * z \<rparr>"
    by (simp add: V_def)
qed

theorem toPdf_toViewport_inverse_witness:
  "(0 :: real) < 3 / 2
   \<and> vp_transform (spec_viewport 612 792 (3 / 2))
       = \<lparr> t0 = 3 / 2, t1 = 0, t2 = 0, t3 = - (3 / 2), t4 = 0, t5 = 792 * (3 / 2) \<rparr>
   \<and> toViewport (spec_viewport 612 792 (3 / 2)) (tc_transform invoice_run) = (75, 138)
   \<and> toPdf (3 / 2) 792 (75, 138) = (50, 700)
   \<and> (\<forall>m. toPdf (3 / 2) 792 (toViewport (spec_viewport 612 792 (3 / 2)) m) = (t4 m, t5 m))"
proof -
  have z: "(0 :: real) < 3 / 2" by simp
  have vp: "vp_transform (spec_viewport 612 792 (3 / 2))
      = \<lparr> t0 = 3 / 2, t1 = 0, t2 = 0, t3 = - (3 / 2), t4 = 0, t5 = 792 * (3 / 2) \<rparr>"
    by (simp add: spec_viewport_def)
  have v: "toViewport (spec_viewport 612 792 (3 / 2)) (tc_transform invoice_run) = (75, 138)"
    by (simp add: toViewport_def spec_viewport_def Util_transform_def invoice_run_def Let_def)
  have returns: "toPdf (3 / 2) 792 (toViewport (spec_viewport 612 792 (3 / 2)) m) = (t4 m, t5 m)"
    for m
    using toPdf_toViewport_inverse [OF z, of "spec_viewport 612 792 (3 / 2)" 792 m] vp by blast
  from returns [of "tc_transform invoice_run"] v
  have "toPdf (3 / 2) 792 (75, 138) = (50, 700)"
    by (simp add: invoice_run_def)
  with z vp v returns show ?thesis by blast
qed

text \<open>
  Without the condition on the viewport the round trip fails. At scale 1.5 and page
  height 792, the point (50, 700) comes back as (700, 742) on a page shown rotated by 90
  degrees and as (40, 680) on a page whose box starts at (10, 20).
\<close>

theorem toPdf_toViewport_counterexample:
  "toPdf (3 / 2) 792 (toViewport rotated_viewport (tc_transform invoice_run)) = (700, 742)
   \<and> toPdf (3 / 2) 792 (toViewport rotated_viewport (tc_transform invoice_run))
       \<noteq> (t4 (tc_transform invoice_run), t5 (tc_transform invoice_run))
   \<and> toPdf (3 / 2) 792 (toViewport shifted_viewport (tc_transform invoice_run)) = (40, 680)
   \<and> toPdf (3 / 2) 792 (toViewport shifted_viewport (tc_transform invoice_run))
       \<noteq> (t4 (tc_transform invoice_run), t5 (tc_transform invoice_run))"
  by (simp add: toPdf_def toViewport_def Util_transform_def Let_def rotated_viewport_def
      shifted_viewport_def invoice_run_def)

subsection \<open>The document patcher and overlays\<close>

text \<open>
  C7. When a save at a positive scale produces a document, then for every overlay the
  overlay's page is a page of the freshly parsed document, of height \<open>H\<close>, and the calls
  made on it contain the overlay's text drawn at
  \<open>(x / scale, H - y / scale - fontSize / scale)\<close> with size \<open>fontSize / scale\<close>. A new
  overlay at screen (100, 200), of font size 16, at scale 1.5 on a page of height 792 has
  its text at (200/3, 648), and 200/3 is 66.67 to within a hundredth.
\<close>

theorem savePdf_draws_overlay:
  assumes "snd (savePdf c s) = Downloaded name out" and "ov \<in> set (textOverlays s)"
    and "0 < scale s"
  shows "(\<exists>b doc. pdfBytes s = Some b \<and> PDFDocument_load c b = Some doc
            \<and> 1 \<le> ov_page ov \<and> ov_page ov \<le> int (length doc)
            \<and> (nat (ov_page ov - 1),
                DrawText (ov_text ov)
                  \<lparr> text_x = ov_x ov / scale s,
                    text_y = snd (doc ! nat (ov_page ov - 1)) - ov_y ov / scale s
                               - ov_fontSize ov / scale s,
                    text_size = ov_fontSize ov / scale s,
                    text_font = Helvetica,
                    text_color = HexColour (js_replace ''#'' [] (ov_color ov)) \<rparr>)
                \<in> set (saved_drawn out))
       \<and> last (overlay_ops (3 / 2) 792 (newOverlay now 100 200 1))
           = DrawText ''New text''
               \<lparr> text_x = 200 / 3, text_y = 648, text_size = 32 / 3,
                 text_font = Helvetica, text_color = HexColour ''000000'' \<rparr>
       \<and> \<bar>200 / 3 - 66.67 :: real\<bar> < 0.01"
proof -
  from savePdf_Downloaded [OF assms(1)] obtain b doc drawn1 drawn2
    where b: "pdfBytes s = Some b" and doc: "PDFDocument_load c b = Some doc"
      and overlays: "for_each (apply_overlay c doc (scale s)) (textOverlays s) = Inr drawn2"
      and drawn: "saved_drawn out = drawn1 @ drawn2" by blast
  from for_each_mem [OF overlays assms(2)] obtain zs before after
    where zs: "apply_overlay c doc (scale s) ov = Inr zs" and d2: "drawn2 = before @ zs @ after"
    by blast
  note page = apply_overlay_Inr [OF zs]
  define call where "call =
     (nat (ov_page ov - 1),
      DrawText (ov_text ov)
        \<lparr> text_x = ov_x ov / scale s,
          text_y = snd (doc ! nat (ov_page ov - 1)) - ov_y ov / scale s
                     - ov_fontSize ov / scale s,
          text_size = ov_fontSize ov / scale s,
          text_font = Helvetica,
          text_color = HexColour (js_replace ''#'' [] (ov_color ov)) \<rparr>)"
  have "call \<in> set zs"
    using page by (simp add: call_def overlay_ops_def Let_def toPdf_def)
  with d2 drawn have "call \<in> set (saved_drawn out)" by simp
  with b doc page have first: "\<exists>b doc. pdfBytes s = Some b \<and> PDFDocument_load c b = Some doc
            \<and> 1 \<le> ov_page ov \<and> ov_page ov \<le> int (length doc)
            \<and> (nat (ov_page ov - 1),
                DrawText (ov_text ov)
                  \<lparr> text_x = ov_x ov / scale s,
                    text_y = snd (doc ! nat (ov_page ov - 1)) - ov_y ov / scale s
                               - ov_fontSize ov / scale s,
                    text_size = ov_fontSize ov / scale s,
                    text_font = Helvetica,
                    text_color = HexColour (js_replace ''#'' [] (ov_color ov)) \<rparr>)
                \<in> set (saved_drawn out)"
    unfolding call_def by blast
  have second: "last (overlay_ops (3 / 2) 792 (newOverlay now 100 200 1))
           = DrawText ''New text''
               \<lparr> text_x = 200 / 3, text_y = 648, text_size = 32 / 3,
                 text_font = Helvetica, text_color = HexColour ''000000'' \<rparr>"
    by (simp add: overlay_ops_def newOverlay_def Let_def toPdf_def)
  have third: "\<bar>200 / 3 - 66.67 :: real\<bar> < 0.01" by simp
  from first second third show ?thesis by blast
qed

theorem savePdf_draws_overlay_witness:
  "snd (savePdf example_collaborators overlay_session)
     = Downloaded ''invoice_edited.pdf'' overlay_saved
   \<and> newOverlay 1700000000000 100 200 1 \<in> set (textOverlays overlay_session)
   \<and> 0 < scale overlay_session
   \<and> (0, DrawText ''New text''
            \<lparr> text_x = 200 / 3, text_y = 648, text_size = 32 / 3, text_font = Helvetica,
              text_color = HexColour ''000000'' \<rparr>) \<in> set (saved_drawn overlay_saved)"
proof -
  have saved: "snd (savePdf example_collaborators overlay_session)
      = Downloaded ''invoice_edited.pdf'' overlay_saved"
    by (simp add: save_overlay_session)
  have member: "newOverlay 1700000000000 100 200 1 \<in> set (textOverlays overlay_session)"
    by (simp add: overlay_session_def)
  have zoom: "0 < scale overlay_session"
    by (simp add: overlay_session_def loaded_session_value)
  from savePdf_draws_overlay [OF saved member zoom]
  have "(0, DrawText ''New text''
            \<lparr> text_x = 200 / 3, text_y = 648, text_size = 32 / 3, text_font = Helvetica,
              text_color = HexColour ''000000'' \<rparr>) \<in> set (saved_drawn overlay_saved)"
    by (auto simp: overlay_session_def loaded_session_value example_collaborators_def
        newOverlay_def)
  with saved member zoom show ?thesis by simp
qed

subsection \<open>Reverting a run\<close>

text \<open>
  C8. \<open>revertTextItem\<close> on a run of the page sets the run's text to its original text
  and leaves no ledger entry under the run's id. Reverting twice is reverting once. On a
  run that is not edited (its text is the original text, it is not flagged and the ledger
  has no entry for it) the runs and the ledger stay as they are: the session changes in
  nothing but the run selection, which the handler clears.
\<close>

theorem revertTextItem_idempotent:
  "(n < length (existingTextItems s) \<longrightarrow>
      item_text (existingTextItems (revertTextItem n s) ! n)
        = originalText (existingTextItems s ! n)
      \<and> originalText (existingTextItems (revertTextItem n s) ! n)
        = originalText (existingTextItems s ! n)
      \<and> obj_get (editedTextItems (revertTextItem n s)) (item_id (existingTextItems s ! n)) = None
      \<and> item_id (existingTextItems s ! n) \<notin> fst ` set (editedTextItems (revertTextItem n s)))
   \<and> revertTextItem n (revertTextItem n s) = revertTextItem n s
   \<and> (n < length (existingTextItems s)
        \<and> item_text (existingTextItems s ! n) = originalText (existingTextItems s ! n)
        \<and> \<not> isEdited (existingTextItems s ! n)
        \<and> item_id (existingTextItems s ! n) \<notin> fst ` set (editedTextItems s) \<longrightarrow>
       revertTextItem n s = s\<lparr> selectedTextItem := None \<rparr>
       \<and> existingTextItems (revertTextItem n s) = existingTextItems s
       \<and> editedTextItems (revertTextItem n s) = editedTextItems s)"
  by (auto simp: revertTextItem_def Let_def obj_delete_keys obj_delete_twice obj_delete_absent
      obj_get_delete list_update_same_conv)

lemma revert_edited_session: "revertTextItem 0 edited_session = loaded_session"
  by (simp add: revertTextItem_def edited_session_value loaded_session_value Let_def
      invoice_item_def obj_delete_def)

theorem revertTextItem_idempotent_witness:
  "item_text (existingTextItems (revertTextItem 0 edited_session) ! 0) = ''Invoice #001''
   \<and> obj_get (editedTextItems (revertTextItem 0 edited_session)) ''1-1'' = None
   \<and> revertTextItem 0 (revertTextItem 0 edited_session) = loaded_session
   \<and> revertTextItem 0 loaded_session = loaded_session"
proof -
  have edited: "0 < length (existingTextItems edited_session)"
    by (simp add: edited_session_value)
  have unedited: "0 < length (existingTextItems loaded_session)
      \<and> item_text (existingTextItems loaded_session ! 0)
          = originalText (existingTextItems loaded_session ! 0)
      \<and> \<not> isEdited (existingTextItems loaded_session ! 0)
      \<and> item_id (existingTextItems loaded_session ! 0)
          \<notin> fst ` set (editedTextItems loaded_session)"
    by (simp add: loaded_session_value invoice_item_def)
  have same: "loaded_session\<lparr> selectedTextItem := None \<rparr> = loaded_session"
    by (simp add: loaded_session_value)
  from revertTextItem_idempotent [of 0 edited_session] edited
  have first: "item_text (existingTextItems (revertTextItem 0 edited_session) ! 0)
        = ''Invoice #001''
      \<and> obj_get (editedTextItems (revertTextItem 0 edited_session)) ''1-1'' = None
      \<and> revertTextItem 0 (revertTextItem 0 edited_session) = loaded_session"
    by (simp add: revert_edited_session) (simp add: edited_session_value invoice_item_def)
  from revertTextItem_idempotent [of 0 loaded_session] unedited same
  have "revertTextItem 0 loaded_session = loaded_session" by simp
  with first show ?thesis by simp
qed

subsection \<open>A failed load\<close>

text \<open>
  What a load does whose bytes pdf-lib rejects: the file name and the bytes of the
  rejected file are in the session; the other refs keep their values.
\<close>

lemma handleFileUpload_rejected:
  assumes "PDFDocument_load c (file_bytes file) = None"
  shows "handleFileUpload c (Some file) s
     = (s\<lparr> isLoading := False, fileName := file_name file,
            pdfBytes := Some (file_bytes file) \<rparr>, LoadAlert)"
  using assms by (simp add: handleFileUpload_def Let_def)

text \<open>
  C9, at a failing input. Loading a file with the one byte 0, which is no PDF, into the
  initial session leaves the session with the name and the bytes of that file: the file
  name and the byte buffer are not those of the session before the load.
\<close>

theorem failed_load_overwrites_session:
  "handleFileUpload example_collaborators (Some broken_file) initial_session
     = (initial_session\<lparr> fileName := ''broken.pdf'', pdfBytes := Some [0] \<rparr>, LoadAlert)
   \<and> fileName (fst (handleFileUpload example_collaborators (Some broken_file) initial_session))
       \<noteq> fileName initial_session
   \<and> pdfBytes (fst (handleFileUpload example_collaborators (Some broken_file) initial_session))
       \<noteq> pdfBytes initial_session"
  by (simp add: handleFileUpload_def example_collaborators_def broken_file_def
      initial_session_def invoice_bytes_def Let_def)

text \<open>
  After a document was loaded, a failed load leaves the old document handle with the
  rejected bytes, and the next save fails on them.
\<close>

lemma failed_load_after_good_load:
  "fst (handleFileUpload example_collaborators (Some broken_file) loaded_session)
     = loaded_session\<lparr> fileName := ''broken.pdf'', pdfBytes := Some [0] \<rparr>
   \<and> snd (savePdf example_collaborators
          (fst (handleFileUpload example_collaborators (Some broken_file) loaded_session)))
       = SaveAlert LoadError"
  by (simp add: handleFileUpload_def example_collaborators_def broken_file_def
      loaded_session_value invoice_bytes_def Let_def savePdf_def patch_def)

subsection \<open>Page navigation\<close>

lemma renderPage_unawaited_pages:
  "currentPage (renderPage_unawaited c s) = currentPage s \<and>
   totalPages (renderPage_unawaited c s) = totalPages s"
  by (simp add: renderPage_unawaited_def renderPage_def extractTextItems_def Let_def
      split: option.splits sum.splits)

lemma nextPage_pages:
  "currentPage (nextPage c s)
     = (if currentPage s < totalPages s then currentPage s + 1 else currentPage s)
   \<and> totalPages (nextPage c s) = totalPages s"
  by (simp add: nextPage_def renderPage_unawaited_pages)

lemma prevPage_pages:
  "currentPage (prevPage c s) = (if 1 < currentPage s then currentPage s - 1 else currentPage s)
   \<and> totalPages (prevPage c s) = totalPages s"
  by (simp add: prevPage_def renderPage_unawaited_pages)

lemma navigate_in_range:
  "1 \<le> currentPage s \<and> currentPage s \<le> totalPages s \<Longrightarrow>
   1 \<le> currentPage (navigate c r s) \<and> currentPage (navigate c r s) \<le> totalPages (navigate c r s)
   \<and> totalPages (navigate c r s) = totalPages s"
  by (cases r) (auto simp: prevPage_pages nextPage_pages)

lemma navigate_all_in_range:
  "1 \<le> currentPage s \<and> currentPage s \<le> totalPages s \<Longrightarrow>
   1 \<le> currentPage (navigate_all c rs s) \<and> currentPage (navigate_all c rs s) \<le> totalPages s
   \<and> totalPages (navigate_all c rs s) = totalPages s"
proof (induction rs arbitrary: s)
  case Nil
  then show ?case by simp
next
  case (Cons r rs)
  from navigate_in_range [OF Cons.prems, of c r]
  have step: "1 \<le> currentPage (navigate c r s)
      \<and> currentPage (navigate c r s) \<le> totalPages (navigate c r s)"
    and same: "totalPages (navigate c r s) = totalPages s" by simp_all
  from Cons.IH [OF step] same show ?case by simp
qed

text \<open>
  C10. From page 1 of a document of at least one page, after any sequence of
  \<open>prevPage\<close> and \<open>nextPage\<close> the current page is between 1 and the number of pages,
  which does not change; \<open>prevPage\<close> changes nothing on page 1 and \<open>nextPage\<close> changes
  nothing on the last page.
\<close>

theorem currentPage_stays_in_range:
  "(1 \<le> totalPages s \<and> currentPage s = 1 \<longrightarrow>
      1 \<le> currentPage (navigate_all c rs s)
      \<and> currentPage (navigate_all c rs s) \<le> totalPages (navigate_all c rs s)
      \<and> totalPages (navigate_all c rs s) = totalPages s)
   \<and> (currentPage t = 1 \<longrightarrow> prevPage c t = t)
   \<and> (currentPage t = totalPages t \<longrightarrow> nextPage c t = t)"
  using navigate_all_in_range [of s c rs]
  by (auto simp: prevPage_def nextPage_def)

theorem currentPage_stays_in_range_witness:
  "1 \<le> currentPage
          (navigate_all example_collaborators [NextPage, NextPage, PrevPage, PrevPage, PrevPage]
             loaded_session)
   \<and> currentPage
        (navigate_all example_collaborators [NextPage, NextPage, PrevPage, PrevPage, PrevPage]
           loaded_session) \<le> 2
   \<and> prevPage example_collaborators loaded_session = loaded_session
   \<and> nextPage example_collaborators (nextPage example_collaborators loaded_session)
       = nextPage example_collaborators loaded_session"
proof -
  have start: "1 \<le> totalPages loaded_session \<and> currentPage loaded_session = 1"
    and pages: "totalPages loaded_session = 2"
    by (simp_all add: loaded_session_value)
  have last: "currentPage (nextPage example_collaborators loaded_session)
      = totalPages (nextPage example_collaborators loaded_session)"
    by (simp add: nextPage_pages loaded_session_value)
  from currentPage_stays_in_range
    [of loaded_session example_collaborators
      "[NextPage, NextPage, PrevPage, PrevPage, PrevPage]" loaded_session] start pages
  have first: "1 \<le> currentPage
          (navigate_all example_collaborators [NextPage, NextPage, PrevPage, PrevPage, PrevPage]
             loaded_session)
   \<and> currentPage
        (navigate_all example_collaborators [NextPage, NextPage, PrevPage, PrevPage, PrevPage]
           loaded_session) \<le> 2
   \<and> prevPage example_collaborators loaded_session = loaded_session"
    by simp
  from currentPage_stays_in_range
    [of loaded_session example_collaborators "[]" "nextPage example_collaborators loaded_session"]
    last
  have "nextPage example_collaborators (nextPage example_collaborators loaded_session)
       = nextPage example_collaborators loaded_session" by simp
  with first show ?thesis by simp
qed

subsection \<open>The ledger keeps each key once\<close>

lemma ledger_ok_kept:
  "obj_ok (editedTextItems initial_session)"
  "obj_ok (editedTextItems s) \<Longrightarrow> obj_ok (editedTextItems (finishEditingTextItem n s))"
  "obj_ok (editedTextItems s) \<Longrightarrow> obj_ok (editedTextItems (revertTextItem n s))"
  "obj_ok (editedTextItems s) \<Longrightarrow> obj_ok (editedTextItems (typeText n t s))"
  "obj_ok (editedTextItems s) \<Longrightarrow> obj_ok (editedTextItems (fst (handleFileUpload c ev s)))"
  "obj_ok (editedTextItems s) \<Longrightarrow> obj_ok (editedTextItems (navigate c r s))"
  "obj_ok (editedTextItems s) \<Longrightarrow> obj_ok (editedTextItems (fst (savePdf c s)))"
proof -
  show "obj_ok (editedTextItems initial_session)"
    by (simp add: initial_session_def obj_ok_def)
  show "obj_ok (editedTextItems s) \<Longrightarrow> obj_ok (editedTextItems (finishEditingTextItem n s))"
    by (simp add: finishEditingTextItem_def Let_def obj_ok_set obj_ok_delete)
  show "obj_ok (editedTextItems s) \<Longrightarrow> obj_ok (editedTextItems (revertTextItem n s))"
    by (simp add: revertTextItem_def Let_def obj_ok_delete)
  show "obj_ok (editedTextItems s) \<Longrightarrow> obj_ok (editedTextItems (typeText n t s))"
    by (simp add: typeText_def)
  show "obj_ok (editedTextItems s) \<Longrightarrow> obj_ok (editedTextItems (fst (handleFileUpload c ev s)))"
    by (auto simp: handleFileUpload_def Let_def renderPage_def extractTextItems_def obj_ok_def
        split: option.splits sum.splits if_splits)
  show "obj_ok (editedTextItems s) \<Longrightarrow> obj_ok (editedTextItems (navigate c r s))"
    by (cases r)
      (auto simp: prevPage_def nextPage_def renderPage_unawaited_def renderPage_def
        extractTextItems_def Let_def split: option.splits sum.splits if_splits)
  show "obj_ok (editedTextItems s) \<Longrightarrow> obj_ok (editedTextItems (fst (savePdf c s)))"
    by (simp add: savePdf_def Let_def split: option.splits)
qed

subsection \<open>Further properties of saving\<close>

text \<open>
  When a save produces a document, its source is the session's byte buffer, and every call
  for a ledger entry comes before every call for an overlay: the calls are those of the
  first loop followed by those of the second.
\<close>

theorem savePdf_edits_before_overlays:
  assumes "snd (savePdf c s) = Downloaded name out"
  shows "\<exists>doc drawn1 drawn2.
           pdfBytes s = Some (saved_source out)
           \<and> PDFDocument_load c (saved_source out) = Some doc
           \<and> for_each (apply_edit c doc) (map snd (editedTextItems s)) = Inr drawn1
           \<and> for_each (apply_overlay c doc (scale s)) (textOverlays s) = Inr drawn2
           \<and> saved_drawn out = drawn1 @ drawn2
           \<and> name = js_replace ''.pdf'' ''_edited.pdf'' (fileName s)"
  using assms
  by (auto simp: savePdf_def patch_def Let_def split: option.splits sum.splits)

theorem savePdf_edits_before_overlays_witness:
  "snd (savePdf example_collaborators edited_session)
     = Downloaded ''invoice_edited.pdf'' invoice_saved
   \<and> pdfBytes edited_session = Some (saved_source invoice_saved)
   \<and> ''invoice_edited.pdf'' = js_replace ''.pdf'' ''_edited.pdf'' (fileName edited_session)"
proof -
  have saved: "snd (savePdf example_collaborators edited_session)
      = Downloaded ''invoice_edited.pdf'' invoice_saved"
    by (simp add: save_edited_session)
  from savePdf_edits_before_overlays [OF saved] saved show ?thesis by blast
qed

text \<open>
  A save produces a document whenever a document is loaded, the byte buffer parses, every
  ledger entry and overlay names a page of the parsed document, every text to draw can
  be encoded in the font and the two colours of every overlay are accepted.
\<close>

theorem savePdf_produces_document:
  assumes "pdfDoc s \<noteq> None" and "pdfBytes s = Some b" and "PDFDocument_load c b = Some doc"
    and "list_all (\<lambda>p. 1 \<le> edit_page (snd p) \<and> edit_page (snd p) \<le> int (length doc)
           \<and> canEncode c (edit_text (snd p))) (editedTextItems s)"
    and "list_all (\<lambda>ov. 1 \<le> ov_page ov \<and> ov_page ov \<le> int (length doc)
           \<and> canEncode c (ov_text ov)
           \<and> validColour c (js_replace ''#'' [] (ov_color ov))
           \<and> validColour c (js_replace ''#'' [] (ov_backgroundColor ov))) (textOverlays s)"
  shows "\<exists>name out. snd (savePdf c s) = Downloaded name out \<and> saved_source out = b"
  using savePdf_succeeds [of s b c doc] assms by (simp add: list_all_iff)

theorem savePdf_produces_document_witness:
  "\<exists>name out. snd (savePdf example_collaborators edited_session) = Downloaded name out
      \<and> saved_source out = invoice_bytes"
proof -
  have "pdfDoc edited_session \<noteq> None" and "pdfBytes edited_session = Some invoice_bytes"
    and "PDFDocument_load example_collaborators invoice_bytes = Some [(612, 792), (612, 792)]"
    and "list_all (\<lambda>p. 1 \<le> edit_page (snd p)
           \<and> edit_page (snd p) \<le> int (length [(612 :: real, 792 :: real), (612, 792)])
           \<and> canEncode example_collaborators (edit_text (snd p))) (editedTextItems edited_session)"
    and "list_all (\<lambda>ov. 1 \<le> ov_page ov
           \<and> ov_page ov \<le> int (length [(612 :: real, 792 :: real), (612, 792)])
           \<and> canEncode example_collaborators (ov_text ov)
           \<and> validColour example_collaborators (js_replace ''#'' [] (ov_color ov))
           \<and> validColour example_collaborators (js_replace ''#'' [] (ov_backgroundColor ov)))
         (textOverlays edited_session)"
    by (simp_all add: edited_session_value example_collaborators_def invoice_edit_def)
  from savePdf_produces_document [OF this] show ?thesis .
qed

end
